theory Spec2Isabelle
  imports Main "HOL-Library.Sublist"
begin

section \<open>Python text primitives used by check\_whoami.py\<close>

text \<open>
  Text is a list of characters, one \<^typ>\<open>char\<close> per code point (code points 0 to 255).
  \<open>isspace\<close> is Python's \<open>str.isspace\<close> on that range: TAB, LF, VT, FF, CR, the four
  separators FS, GS, RS, US, the space, NEL and the no-break space.
\<close>

definition isspace :: "char \<Rightarrow> bool" where
  "isspace c = (of_char c \<in> {9, 10, 11, 12, 13, 28, 29, 30, 31, 32, 133, 160 :: nat})"

text \<open>\<open>s.strip()\<close>: whitespace removed at both ends.\<close>

definition lstrip :: "string \<Rightarrow> string" where
  "lstrip s = dropWhile isspace s"

definition rstrip :: "string \<Rightarrow> string" where
  "rstrip s = rev (dropWhile isspace (rev s))"

definition strip :: "string \<Rightarrow> string" where
  "strip s = rstrip (lstrip s)"

text \<open>\<open>sub in s\<close> on strings: \<open>sub\<close> occurs in \<open>s\<close> as a contiguous run.\<close>

fun py_in :: "string \<Rightarrow> string \<Rightarrow> bool" where
  "py_in sub [] = (sub = [])"
| "py_in sub (c # cs) = (prefix sub (c # cs) \<or> py_in sub cs)"

text \<open>\<open>str(n)\<close> for an integer: decimal digits, with a minus sign when negative.\<close>

definition digit_char :: "nat \<Rightarrow> char" where
  "digit_char d = ''0123456789'' ! d"

fun str_nat :: "nat \<Rightarrow> string" where
  "str_nat n = (if n < 10 then [digit_char n] else str_nat (n div 10) @ [digit_char (n mod 10)])"

declare str_nat.simps [simp del]

definition str_int :: "int \<Rightarrow> string" where
  "str_int i = (if i < 0 then CHR ''-'' # str_nat (nat (- i)) else str_nat (nat i))"

text \<open>
  The values \<open>(user, error)\<close> and \<open>(output, error)\<close> hold a string or \<open>None\<close>.
  \<open>truthy\<close> is the test of \<open>if error:\<close> (\<open>None\<close> and the empty string are false);
  \<open>fmt\<close> is what an f-string puts in a \<open>{...}\<close> slot.
\<close>

fun truthy :: "string option \<Rightarrow> bool" where
  "truthy None = False"
| "truthy (Some s) = (s \<noteq> [])"

fun fmt :: "string option \<Rightarrow> string" where
  "fmt None = ''None''"
| "fmt (Some s) = s"

section \<open>The module object and its effects\<close>

text \<open>
  Everything the functions do to the outside goes through the module object and
  \<open>time.sleep\<close>. The journal records these effects in order. \<open>answers m n c\<close> is the
  triple \<open>(rc, stdout, stderr)\<close> that \<open>module.run_command\<close> gives when the command \<open>c\<close>
  is its call number \<open>n\<close> (counted from 0 over the whole run).
\<close>

datatype event = Run string | Warn string | Sleep int

datatype py_error = ValueError | TypeError

record ansible_module =
  answers :: "nat \<Rightarrow> string \<Rightarrow> int \<times> string \<times> string"
  journal :: "event list"

fun is_Run :: "event \<Rightarrow> bool" where
  "is_Run (Run c) = True"
| "is_Run (Warn w) = False"
| "is_Run (Sleep d) = False"

fun is_Sleep :: "event \<Rightarrow> bool" where
  "is_Sleep (Sleep d) = True"
| "is_Sleep (Run c) = False"
| "is_Sleep (Warn w) = False"

definition nruns :: "ansible_module \<Rightarrow> nat" where
  "nruns m = length (filter is_Run (journal m))"

definition run_command :: "string \<Rightarrow> ansible_module \<Rightarrow> (int \<times> string \<times> string) \<times> ansible_module" where
  "run_command command m = (answers m (nruns m) command, m\<lparr>journal := journal m @ [Run command]\<rparr>)"

definition warn :: "string \<Rightarrow> ansible_module \<Rightarrow> ansible_module" where
  "warn msg m = m\<lparr>journal := journal m @ [Warn msg]\<rparr>"

text \<open>\<open>time.sleep(d)\<close> raises ValueError on a negative length.\<close>

definition sleep :: "int \<Rightarrow> ansible_module \<Rightarrow> (py_error + unit) \<times> ansible_module" where
  "sleep d m = (if d < 0 then (Inl ValueError, m) else (Inr (), m\<lparr>journal := journal m @ [Sleep d]\<rparr>))"

section \<open>run\_command\_with\_retries\<close>

text \<open>\<open>range(retries)\<close>: the attempts 0, ..., retries - 1, none when \<open>retries \<le> 0\<close>.\<close>

definition py_range :: "int \<Rightarrow> int list" where
  "py_range n = [0..n - 1]"

text \<open>
  The body of the \<open>for\<close> loop, over the attempts still to make. The empty list is the loop
  running out, after which the function returns \<open>(None, "Unknown error")\<close>.
\<close>

fun retry_loop ::
  "string \<Rightarrow> int \<Rightarrow> int \<Rightarrow> int list \<Rightarrow> ansible_module \<Rightarrow>
     (py_error + (string option \<times> string option)) \<times> ansible_module" where
  "retry_loop command retries delay [] m = (Inr (None, Some ''Unknown error''), m)"
| "retry_loop command retries delay (attempt # rest) m =
     (case run_command command m of
        ((rc, stdout, stderr), m1) \<Rightarrow>
          if rc = 0 then (Inr (Some (strip stdout), None), m1)
          else if attempt < retries - 1 then
            (case sleep delay
                    (warn (''Retrying in '' @ str_int delay @ '' seconds due to error: '' @ strip stderr) m1) of
               (Inl e, m2) \<Rightarrow> (Inl e, m2)
             | (Inr u, m2) \<Rightarrow> retry_loop command retries delay rest m2)
          else
            (Inr (None, Some (''Command failed after '' @ str_int retries @ '' attempts: '' @ strip stderr)), m1))"

definition run_command_with_retries ::
  "ansible_module \<Rightarrow> string \<Rightarrow> int \<Rightarrow> int \<Rightarrow>
     (py_error + (string option \<times> string option)) \<times> ansible_module" where
  "run_command_with_retries m command retries delay = retry_loop command retries delay (py_range retries) m"

section \<open>check\_cluster\_admin and run\_module\<close>

definition user_command :: string where
  "user_command = ''oc whoami''"

definition check_admin_command :: string where
  "check_admin_command = ''oc auth can-i '*' '*' --all-namespaces''"

definition check_cluster_admin ::
  "ansible_module \<Rightarrow> (py_error + (string option \<times> string option)) \<times> ansible_module" where
  "check_cluster_admin m =
     (case run_command_with_retries m user_command 3 3 of
        (Inl e, m1) \<Rightarrow> (Inl e, m1)
      | (Inr (user, error), m1) \<Rightarrow>
          if truthy error then
            (Inr (None, Some (''Failed to execute `'' @ user_command @ ''`. Ensure `oc` client is configured correctly.'')), m1)
          else
            (case run_command_with_retries m1 check_admin_command 3 3 of
               (Inl e, m2) \<Rightarrow> (Inl e, m2)
             | (Inr (admin_rights, error), m2) \<Rightarrow>
                 if truthy error then
                   (Inr (None, Some (''Failed to verify cluster-admin rights. Error: '' @ fmt error)), m2)
                 else
                   (case admin_rights of
                      None \<Rightarrow> (Inl TypeError, m2)
                    | Some out \<Rightarrow>
                        if py_in ''yes'' out \<or> user = Some ''system:admin'' then (Inr (user, None), m2)
                        else (Inr (user, Some ''User does not have `cluster-admin` rights.''), m2))))"

text \<open>
  \<open>fail_json\<close> and \<open>exit_json\<close> both end the process, so \<open>run_module\<close> has one of three
  outcomes: a failure report, a success report, or an exception nobody caught.
\<close>

datatype outcome = Fail_json string | Exit_json bool string | Uncaught py_error

definition run_module :: "ansible_module \<Rightarrow> outcome \<times> ansible_module" where
  "run_module m =
     (case check_cluster_admin m of
        (Inl e, m1) \<Rightarrow> (Uncaught e, m1)
      | (Inr (user, error), m1) \<Rightarrow>
          if truthy error then
            (Fail_json (''Current user `'' @ fmt user @ ''` does not have `cluster-admin` rights. '' @ fmt error), m1)
          else
            (Exit_json False (''User `'' @ fmt user @ ''` has `cluster-admin` privileges.''), m1))"

section \<open>Vocabulary of the properties\<close>

text \<open>
  \<open>attempt_answer m c i\<close> is what attempt \<open>i\<close> (from 0) of a retried command \<open>c\<close> gets
  when the retrying starts in state \<open>m\<close>. \<open>retry_events\<close> are the effects of one failed
  attempt that is followed by another; \<open>failed_attempts\<close> those of the first \<open>k\<close> attempts.
\<close>

definition attempt_answer :: "ansible_module \<Rightarrow> string \<Rightarrow> nat \<Rightarrow> int \<times> string \<times> string" where
  "attempt_answer m c i = answers m (nruns m + i) c"

definition retry_events :: "string \<Rightarrow> int \<Rightarrow> string \<Rightarrow> event list" where
  "retry_events c delay stderr =
     [Run c, Warn (''Retrying in '' @ str_int delay @ '' seconds due to error: '' @ strip stderr), Sleep delay]"

definition failed_attempts :: "ansible_module \<Rightarrow> string \<Rightarrow> int \<Rightarrow> nat \<Rightarrow> event list" where
  "failed_attempts m c delay k =
     concat (map (\<lambda>i. retry_events c delay (snd (snd (attempt_answer m c i)))) [0..<k])"

text \<open>
  The state in which \<open>check_cluster_admin\<close>, started in \<open>m\<close>, has its identity answer
  after \<open>k\<close> failed attempts, and the state a permission query started in \<open>m\<close> leaves
  after \<open>l\<close> failed attempts.
\<close>

definition after_identity :: "ansible_module \<Rightarrow> nat \<Rightarrow> ansible_module" where
  "after_identity m k = m\<lparr>journal := journal m @ failed_attempts m user_command 3 k @ [Run user_command]\<rparr>"

definition after_permission :: "ansible_module \<Rightarrow> nat \<Rightarrow> ansible_module" where
  "after_permission m l = m\<lparr>journal := journal m @ failed_attempts m check_admin_command 3 l @ [Run check_admin_command]\<rparr>"

text \<open>A module whose \<open>run_command\<close> replays the given answers in order, whatever the command.\<close>

definition replaying :: "(int \<times> string \<times> string) list \<Rightarrow> ansible_module" where
  "replaying rs = \<lparr>answers = (\<lambda>n c. if n < length rs then rs ! n else (1, [], [])), journal = []\<rparr>"

section \<open>Facts about the text primitives and the journal\<close>

lemma py_in_iff_sublist: "py_in sub s \<longleftrightarrow> sublist sub s"
  by (induction s) (simp_all add: sublist_Cons_right)

lemma py_in_append: "py_in sub (ps @ sub @ ss)"
  by (simp add: py_in_iff_sublist)

lemma nruns_append [simp]: "nruns (m\<lparr>journal := journal m @ es\<rparr>) = nruns m + length (filter is_Run es)"
  by (simp add: nruns_def)

lemma attempt_answer_shift:
  "attempt_answer (m\<lparr>journal := journal m @ retry_events c d e\<rparr>) c' i = attempt_answer m c' (Suc i)"
  by (simp add: attempt_answer_def retry_events_def)

lemma failed_attempts_Suc:
  "failed_attempts m c d (Suc k) =
     retry_events c d (snd (snd (attempt_answer m c 0)))
       @ failed_attempts (m\<lparr>journal := journal m @ retry_events c d e\<rparr>) c d k"
proof -
  have "[0..<Suc k] = 0 # map Suc [0..<k]"
    by (simp add: upt_conv_Cons map_Suc_upt del: upt_Suc)
  then show ?thesis
    by (simp add: failed_attempts_def attempt_answer_shift comp_def del: upt_Suc)
qed

section \<open>The retry loop, attempt by attempt\<close>

text \<open>A failed attempt that is not the last one leaves its three events and goes on.\<close>

lemma retry_loop_step:
  assumes "fst (attempt_answer m c 0) \<noteq> 0" and "a < retries - 1" and "0 \<le> delay"
  shows "retry_loop c retries delay (a # rest) m =
           retry_loop c retries delay rest
             (m\<lparr>journal := journal m @ retry_events c delay (snd (snd (attempt_answer m c 0)))\<rparr>)"
  using assms
  by (cases "answers m (nruns m) c")
     (simp add: run_command_def attempt_answer_def warn_def sleep_def retry_events_def)

lemma retry_loop_success:
  assumes "\<forall>i<k. fst (attempt_answer m c i) \<noteq> 0"
    and "fst (attempt_answer m c k) = 0"
    and "a + int k < retries"
    and "0 \<le> delay"
  shows "retry_loop c retries delay [a..retries - 1] m =
           (Inr (Some (strip (fst (snd (attempt_answer m c k)))), None),
            m\<lparr>journal := journal m @ failed_attempts m c delay k @ [Run c]\<rparr>)"
  using assms
proof (induction k arbitrary: a m)
  case 0
  then have "[a..retries - 1] = a # [a + 1..retries - 1]"
    by (simp add: upto_rec1)
  with 0 show ?case
    by (cases "answers m (nruns m) c")
       (simp add: run_command_def attempt_answer_def failed_attempts_def)
next
  case (Suc k)
  let ?e = "snd (snd (attempt_answer m c 0))"
  let ?m = "m\<lparr>journal := journal m @ retry_events c delay ?e\<rparr>"
  from Suc.prems have up: "[a..retries - 1] = a # [a + 1..retries - 1]"
    by (simp add: upto_rec1)
  from Suc.prems have fail0: "fst (attempt_answer m c 0) \<noteq> 0" by blast
  from Suc.prems have more: "a < retries - 1" by simp
  have step: "retry_loop c retries delay [a..retries - 1] m =
                retry_loop c retries delay [a + 1..retries - 1] ?m"
    unfolding up using fail0 more \<open>0 \<le> delay\<close> by (rule retry_loop_step)
  have "\<forall>i<k. fst (attempt_answer ?m c i) \<noteq> 0"
    using Suc.prems(1) by (simp add: attempt_answer_shift)
  moreover have "fst (attempt_answer ?m c k) = 0"
    using Suc.prems(2) by (simp add: attempt_answer_shift)
  moreover have "a + 1 + int k < retries"
    using Suc.prems(3) by simp
  ultimately have "retry_loop c retries delay [a + 1..retries - 1] ?m =
      (Inr (Some (strip (fst (snd (attempt_answer ?m c k)))), None),
       ?m\<lparr>journal := journal ?m @ failed_attempts ?m c delay k @ [Run c]\<rparr>)"
    using \<open>0 \<le> delay\<close> by (rule Suc.IH)
  then show ?case
    unfolding step by (simp add: attempt_answer_shift failed_attempts_Suc [where e = ?e])
qed

lemma retry_loop_exhausted:
  assumes "\<forall>i\<le>k. fst (attempt_answer m c i) \<noteq> 0"
    and "a + int k = retries - 1"
    and "0 \<le> delay"
  shows "retry_loop c retries delay [a..retries - 1] m =
           (Inr (None, Some (''Command failed after '' @ str_int retries @ '' attempts: ''
                               @ strip (snd (snd (attempt_answer m c k))))),
            m\<lparr>journal := journal m @ failed_attempts m c delay k @ [Run c]\<rparr>)"
  using assms
proof (induction k arbitrary: a m)
  case 0
  then have "[a..retries - 1] = [a]"
    by simp
  with 0 show ?case
    by (cases "answers m (nruns m) c")
       (simp add: run_command_def attempt_answer_def failed_attempts_def)
next
  case (Suc k)
  let ?e = "snd (snd (attempt_answer m c 0))"
  let ?m = "m\<lparr>journal := journal m @ retry_events c delay ?e\<rparr>"
  from Suc.prems have up: "[a..retries - 1] = a # [a + 1..retries - 1]"
    by (simp add: upto_rec1)
  from Suc.prems have fail0: "fst (attempt_answer m c 0) \<noteq> 0" by blast
  from Suc.prems have more: "a < retries - 1" by simp
  have step: "retry_loop c retries delay [a..retries - 1] m =
                retry_loop c retries delay [a + 1..retries - 1] ?m"
    unfolding up using fail0 more \<open>0 \<le> delay\<close> by (rule retry_loop_step)
  have "\<forall>i\<le>k. fst (attempt_answer ?m c i) \<noteq> 0"
    using Suc.prems(1) by (simp add: attempt_answer_shift)
  moreover have "a + 1 + int k = retries - 1"
    using Suc.prems(2) by simp
  ultimately have "retry_loop c retries delay [a + 1..retries - 1] ?m =
      (Inr (None, Some (''Command failed after '' @ str_int retries @ '' attempts: ''
                               @ strip (snd (snd (attempt_answer ?m c k))))),
       ?m\<lparr>journal := journal ?m @ failed_attempts ?m c delay k @ [Run c]\<rparr>)"
    using \<open>0 \<le> delay\<close> by (rule Suc.IH)
  then show ?case
    unfolding step by (simp add: attempt_answer_shift failed_attempts_Suc [where e = ?e])
qed

lemma filter_Sleep_failed_attempts:
  "filter is_Sleep (failed_attempts m c d k) = replicate k (Sleep d)"
  by (induction k) (simp_all add: failed_attempts_def retry_events_def replicate_append_same)

lemma filter_Run_failed_attempts:
  "filter is_Run (failed_attempts m c d k) = replicate k (Run c)"
  by (induction k) (simp_all add: failed_attempts_def retry_events_def replicate_append_same)

section \<open>run\_command\_with\_retries as a whole\<close>

lemma run_command_with_retries_success:
  assumes "\<forall>i<k. fst (attempt_answer m c i) \<noteq> 0"
    and "fst (attempt_answer m c k) = 0"
    and "int k < retries"
    and "0 \<le> delay"
  shows "run_command_with_retries m c retries delay =
           (Inr (Some (strip (fst (snd (attempt_answer m c k)))), None),
            m\<lparr>journal := journal m @ failed_attempts m c delay k @ [Run c]\<rparr>)"
  unfolding run_command_with_retries_def py_range_def
  using assms by (intro retry_loop_success) simp_all

lemma run_command_with_retries_exhausted:
  assumes "\<forall>i\<le>k. fst (attempt_answer m c i) \<noteq> 0"
    and "int k = retries - 1"
    and "0 \<le> delay"
  shows "run_command_with_retries m c retries delay =
           (Inr (None, Some (''Command failed after '' @ str_int retries @ '' attempts: ''
                               @ strip (snd (snd (attempt_answer m c k))))),
            m\<lparr>journal := journal m @ failed_attempts m c delay k @ [Run c]\<rparr>)"
  unfolding run_command_with_retries_def py_range_def
  using assms by (intro retry_loop_exhausted) simp_all

section \<open>check\_cluster\_admin, case by case\<close>

lemma str_int_3: "str_int 3 = ''3''"
  by (simp add: str_int_def str_nat.simps digit_char_def)

lemma identity_succeeds:
  assumes "\<forall>i<k. fst (attempt_answer m user_command i) \<noteq> 0"
    and "attempt_answer m user_command k = (0, who, e1)"
    and "k < 3"
  shows "run_command_with_retries m user_command 3 3 = (Inr (Some (strip who), None), after_identity m k)"
  using run_command_with_retries_success [of k m user_command 3 3] assms
  by (simp add: after_identity_def)

lemma permission_succeeds:
  assumes "\<forall>j<l. fst (attempt_answer m' check_admin_command j) \<noteq> 0"
    and "attempt_answer m' check_admin_command l = (0, can_i, e2)"
    and "l < 3"
  shows "run_command_with_retries m' check_admin_command 3 3
           = (Inr (Some (strip can_i), None), after_permission m' l)"
  using run_command_with_retries_success [of l m' check_admin_command 3 3] assms
  by (simp add: after_permission_def)

lemma check_cluster_admin_both_succeed:
  assumes "\<forall>i<k. fst (attempt_answer m user_command i) \<noteq> 0"
    and "attempt_answer m user_command k = (0, who, e1)"
    and "k < 3"
    and "\<forall>j<l. fst (attempt_answer (after_identity m k) check_admin_command j) \<noteq> 0"
    and "attempt_answer (after_identity m k) check_admin_command l = (0, can_i, e2)"
    and "l < 3"
  shows "check_cluster_admin m =
           (Inr (Some (strip who),
                 if py_in ''yes'' (strip can_i) \<or> strip who = ''system:admin'' then None
                 else Some ''User does not have `cluster-admin` rights.''),
            after_permission (after_identity m k) l)"
proof -
  have a: "run_command_with_retries m user_command 3 3 = (Inr (Some (strip who), None), after_identity m k)"
    using assms(1-3) by (rule identity_succeeds)
  have b: "run_command_with_retries (after_identity m k) check_admin_command 3 3
           = (Inr (Some (strip can_i), None), after_permission (after_identity m k) l)"
    using assms(4-6) by (rule permission_succeeds)
  show ?thesis
    by (simp add: check_cluster_admin_def a b)
qed

lemma check_cluster_admin_identity_exhausted:
  assumes "\<forall>i<3. fst (attempt_answer m user_command i) \<noteq> 0"
  shows "check_cluster_admin m =
           (Inr (None, Some ''Failed to execute `oc whoami`. Ensure `oc` client is configured correctly.''),
            after_identity m 2)"
proof -
  from assms have "\<forall>i\<le>2. fst (attempt_answer m user_command i) \<noteq> 0" by simp
  then have "run_command_with_retries m user_command 3 3 =
      (Inr (None, Some (''Command failed after '' @ str_int 3 @ '' attempts: ''
                               @ strip (snd (snd (attempt_answer m user_command 2))))),
       m\<lparr>journal := journal m @ failed_attempts m user_command 3 2 @ [Run user_command]\<rparr>)"
    by (rule run_command_with_retries_exhausted) simp_all
  then show ?thesis
    unfolding check_cluster_admin_def by (simp add: after_identity_def user_command_def)
qed

lemma check_cluster_admin_permission_exhausted:
  assumes "\<forall>i<k. fst (attempt_answer m user_command i) \<noteq> 0"
    and "attempt_answer m user_command k = (0, who, e1)"
    and "k < 3"
    and "\<forall>j<3. fst (attempt_answer (after_identity m k) check_admin_command j) \<noteq> 0"
  shows "check_cluster_admin m =
           (Inr (None, Some (''Failed to verify cluster-admin rights. Error: ''
                   @ ''Command failed after 3 attempts: ''
                   @ strip (snd (snd (attempt_answer (after_identity m k) check_admin_command 2))))),
            after_permission (after_identity m k) 2)"
proof -
  let ?m = "after_identity m k"
  have a: "run_command_with_retries m user_command 3 3 = (Inr (Some (strip who), None), ?m)"
    using assms(1-3) by (rule identity_succeeds)
  from assms(4) have "\<forall>i\<le>2. fst (attempt_answer ?m check_admin_command i) \<noteq> 0" by simp
  then have b: "run_command_with_retries ?m check_admin_command 3 3 =
      (Inr (None, Some (''Command failed after '' @ str_int 3 @ '' attempts: ''
                               @ strip (snd (snd (attempt_answer ?m check_admin_command 2))))),
       ?m\<lparr>journal := journal ?m @ failed_attempts ?m check_admin_command 3 2 @ [Run check_admin_command]\<rparr>)"
    by (rule run_command_with_retries_exhausted) simp_all
  show ?thesis
    by (simp add: check_cluster_admin_def a b after_permission_def str_int_3)
qed

section \<open>Evaluation on concrete runs, and facts about the messages\<close>

lemmas eval_text = strip_def lstrip_def rstrip_def isspace_def str_int_def str_nat.simps digit_char_def
lemmas eval_module = attempt_answer_def replaying_def nruns_def failed_attempts_def retry_events_def
  after_identity_def after_permission_def user_command_def check_admin_command_def

lemma sublist_append_left: "sublist (xs @ ys) zs \<Longrightarrow> sublist xs zs"
  by (auto simp: sublist_def)

lemma generic_hides_runner_failure:
  "\<not> py_in (''Command failed after 3 attempts: '' @ e)
      ''Failed to execute `oc whoami`. Ensure `oc` client is configured correctly.''"
proof
  assume "py_in (''Command failed after 3 attempts: '' @ e)
      ''Failed to execute `oc whoami`. Ensure `oc` client is configured correctly.''"
  then have "sublist (''Command'' @ ('' failed after 3 attempts: '' @ e))
      ''Failed to execute `oc whoami`. Ensure `oc` client is configured correctly.''"
    by (simp add: py_in_iff_sublist)
  then have "sublist ''Command''
      ''Failed to execute `oc whoami`. Ensure `oc` client is configured correctly.''"
    by (rule sublist_append_left)
  then have "py_in ''Command''
      ''Failed to execute `oc whoami`. Ensure `oc` client is configured correctly.''"
    by (simp only: py_in_iff_sublist)
  then show False by simp
qed

lemma events_of_exhausted_identity:
  "failed_attempts m user_command 3 2 @ [Run user_command] =
     [Run ''oc whoami'', 
      Warn (''Retrying in 3 seconds due to error: '' @ strip (snd (snd (attempt_answer m user_command 0)))),
      Sleep 3,
      Run ''oc whoami'',
      Warn (''Retrying in 3 seconds due to error: '' @ strip (snd (snd (attempt_answer m user_command 1)))),
      Sleep 3,
      Run ''oc whoami'']"
  by (simp add: failed_attempts_def retry_events_def numeral_2_eq_2 user_command_def str_int_3)

lemma check_cluster_admin_error_nonempty:
  assumes "fst (check_cluster_admin m) = Inr (user, Some detail)"
  shows "detail \<noteq> []"
  using assms
  by (auto simp: check_cluster_admin_def split: prod.splits sum.splits if_splits option.splits)

lemma run_module_reports_error:
  assumes "fst (check_cluster_admin m) = Inr (user, Some detail)"
  shows "fst (run_module m) =
           Fail_json (''Current user `'' @ fmt user @ ''` does not have `cluster-admin` rights. '' @ detail)"
proof -
  from assms have "detail \<noteq> []" by (rule check_cluster_admin_error_nonempty)
  with assms show ?thesis
    by (cases "check_cluster_admin m") (simp add: run_module_def)
qed

section \<open>Properties of the Runner\<close>

text \<open>
  C2. For every command, every number of attempts \<open>N\<close> and every non-negative delay: when
  the first \<open>k < N\<close> attempts end with a non-zero exit code and attempt \<open>k + 1\<close> ends with
  exit code 0, \<open>run_command_with_retries\<close> returns that attempt's stdout, stripped, and no
  error. It ran the command \<open>k + 1\<close> times and no more, and slept \<open>k\<close> times, once after each
  failed attempt (the journal grows by \<open>k\<close> triples run, warn, sleep and one last run).
\<close>

theorem retries_succeed_after_k_failures:
  assumes "\<forall>i<k. fst (attempt_answer m c i) \<noteq> 0"
    and "attempt_answer m c k = (0, out, err)"
    and "int k < N"
    and "0 \<le> delay"
  shows "fst (run_command_with_retries m c N delay) = Inr (Some (strip out), None)
       \<and> journal (snd (run_command_with_retries m c N delay))
           = journal m @ failed_attempts m c delay k @ [Run c]
       \<and> length (filter is_Run (drop (length (journal m))
            (journal (snd (run_command_with_retries m c N delay))))) = Suc k
       \<and> filter is_Sleep (drop (length (journal m))
            (journal (snd (run_command_with_retries m c N delay)))) = replicate k (Sleep delay)"
proof -
  from assms(2) have "fst (attempt_answer m c k) = 0" by simp
  with assms have "run_command_with_retries m c N delay =
      (Inr (Some (strip (fst (snd (attempt_answer m c k)))), None),
       m\<lparr>journal := journal m @ failed_attempts m c delay k @ [Run c]\<rparr>)"
    by (intro run_command_with_retries_success)
  with assms(2) show ?thesis
    by (simp add: filter_Run_failed_attempts filter_Sleep_failed_attempts)
qed

theorem retries_succeed_after_k_failures_witness:
  "attempt_answer (replaying [(1, '''', ''boom''), (0, '' ok '', '''')]) ''oc whoami'' 0 = (1, '''', ''boom'')
   \<and> attempt_answer (replaying [(1, '''', ''boom''), (0, '' ok '', '''')]) ''oc whoami'' 1 = (0, '' ok '', '''')
   \<and> fst (run_command_with_retries (replaying [(1, '''', ''boom''), (0, '' ok '', '''')]) ''oc whoami'' 3 3)
       = Inr (Some ''ok'', None)
   \<and> journal (snd (run_command_with_retries (replaying [(1, '''', ''boom''), (0, '' ok '', '''')]) ''oc whoami'' 3 3))
       = [Run ''oc whoami'', Warn ''Retrying in 3 seconds due to error: boom'', Sleep 3, Run ''oc whoami'']"
  using retries_succeed_after_k_failures
    [of 1 "replaying [(1, '''', ''boom''), (0, '' ok '', '''')]" "''oc whoami''" "'' ok ''" "''''" 3 3]
  by (simp add: attempt_answer_def replaying_def nruns_def failed_attempts_def retry_events_def
        strip_def lstrip_def rstrip_def isspace_def str_int_def str_nat.simps digit_char_def)

text \<open>
  C3. For every \<open>N \<ge> 1\<close> and every non-negative delay: when all \<open>N\<close> attempts end with a
  non-zero exit code, \<open>run_command_with_retries\<close> returns no output and the message
  "Command failed after N attempts: " followed by the stripped stderr of the last attempt
  alone. The message contains the decimal \<open>N\<close> and that stderr; there were \<open>N - 1\<close> sleeps
  and the last effect is the final run of the command, not a sleep.
\<close>

theorem retries_exhausted:
  assumes "1 \<le> N"
    and "\<forall>i<nat N. fst (attempt_answer m c i) \<noteq> 0"
    and "0 \<le> delay"
  shows "fst (run_command_with_retries m c N delay)
           = Inr (None, Some (''Command failed after '' @ str_int N @ '' attempts: ''
                                @ strip (snd (snd (attempt_answer m c (nat N - 1))))))
       \<and> py_in (str_int N) (''Command failed after '' @ str_int N @ '' attempts: ''
                                @ strip (snd (snd (attempt_answer m c (nat N - 1)))))
       \<and> py_in (strip (snd (snd (attempt_answer m c (nat N - 1)))))
               (''Command failed after '' @ str_int N @ '' attempts: ''
                                @ strip (snd (snd (attempt_answer m c (nat N - 1)))))
       \<and> journal (snd (run_command_with_retries m c N delay))
           = journal m @ failed_attempts m c delay (nat N - 1) @ [Run c]
       \<and> filter is_Sleep (drop (length (journal m))
            (journal (snd (run_command_with_retries m c N delay)))) = replicate (nat N - 1) (Sleep delay)
       \<and> last (journal (snd (run_command_with_retries m c N delay))) = Run c"
proof -
  let ?k = "nat N - 1"
  from assms have "\<forall>i\<le>?k. fst (attempt_answer m c i) \<noteq> 0" by auto
  moreover from assms have "int ?k = N - 1" by simp
  ultimately have run: "run_command_with_retries m c N delay =
      (Inr (None, Some (''Command failed after '' @ str_int N @ '' attempts: ''
                               @ strip (snd (snd (attempt_answer m c ?k))))),
       m\<lparr>journal := journal m @ failed_attempts m c delay ?k @ [Run c]\<rparr>)"
    using \<open>0 \<le> delay\<close> by (rule run_command_with_retries_exhausted)
  have a: "py_in (str_int N) (''Command failed after '' @ str_int N @ '' attempts: ''
                                @ strip (snd (snd (attempt_answer m c ?k))))"
    by (rule py_in_append)
  have b: "py_in (strip (snd (snd (attempt_answer m c ?k))))
               (''Command failed after '' @ str_int N @ '' attempts: ''
                                @ strip (snd (snd (attempt_answer m c ?k))))"
    using py_in_append [of "strip (snd (snd (attempt_answer m c ?k)))"
        "''Command failed after '' @ str_int N @ '' attempts: ''" "[]"]
    by simp
  from run a b show ?thesis
    by (simp add: filter_Sleep_failed_attempts)
qed

theorem retries_exhausted_witness:
  "attempt_answer (replaying [(1, '''', ''a''), (2, '''', ''b''), (1, '''', '' c '')]) ''oc whoami'' 0 = (1, '''', ''a'')
   \<and> attempt_answer (replaying [(1, '''', ''a''), (2, '''', ''b''), (1, '''', '' c '')]) ''oc whoami'' 1 = (2, '''', ''b'')
   \<and> attempt_answer (replaying [(1, '''', ''a''), (2, '''', ''b''), (1, '''', '' c '')]) ''oc whoami'' 2 = (1, '''', '' c '')
   \<and> fst (run_command_with_retries (replaying [(1, '''', ''a''), (2, '''', ''b''), (1, '''', '' c '')]) ''oc whoami'' 3 3)
       = Inr (None, Some ''Command failed after 3 attempts: c'')
   \<and> journal (snd (run_command_with_retries (replaying [(1, '''', ''a''), (2, '''', ''b''), (1, '''', '' c '')]) ''oc whoami'' 3 3))
       = [Run ''oc whoami'', Warn ''Retrying in 3 seconds due to error: a'', Sleep 3,
          Run ''oc whoami'', Warn ''Retrying in 3 seconds due to error: b'', Sleep 3,
          Run ''oc whoami'']"
  using retries_exhausted
    [of 3 "replaying [(1, '''', ''a''), (2, '''', ''b''), (1, '''', '' c '')]" "''oc whoami''" 3]
  by (simp add: attempt_answer_def replaying_def nruns_def failed_attempts_def retry_events_def
        strip_def lstrip_def rstrip_def isspace_def str_int_def str_nat.simps digit_char_def
        less_Suc_eq numeral_3_eq_3)

text \<open>
  C9. When \<open>retries \<le> 0\<close> the loop makes no attempt and runs out; the function then
  returns no output and the message "Unknown error", which is not empty (callers' test
  \<open>if error:\<close> is true), and it has touched nothing.
\<close>

theorem no_attempt_gives_unknown_error:
  assumes "retries \<le> 0"
  shows "run_command_with_retries m c retries delay = (Inr (None, Some ''Unknown error''), m)
       \<and> py_range retries = []
       \<and> retry_loop c retries delay [] m = (Inr (None, Some ''Unknown error''), m)
       \<and> truthy (Some ''Unknown error'')"
  using assms by (simp add: run_command_with_retries_def py_range_def)

theorem no_attempt_gives_unknown_error_witness:
  "(0::int) \<le> 0
   \<and> run_command_with_retries (replaying [(0, ''alice'', '''')]) ''oc whoami'' 0 3
       = (Inr (None, Some ''Unknown error''), replaying [(0, ''alice'', '''')])
   \<and> run_command_with_retries (replaying [(0, ''alice'', '''')]) ''oc whoami'' (- 2) 3
       = (Inr (None, Some ''Unknown error''), replaying [(0, ''alice'', '''')])"
  using no_attempt_gives_unknown_error [of 0 "replaying [(0, ''alice'', '''')]" "''oc whoami''" 3]
    no_attempt_gives_unknown_error [of "- 2" "replaying [(0, ''alice'', '''')]" "''oc whoami''" 3]
  by simp

section \<open>Properties of the decision\<close>

text \<open>
  C1. When both commands succeed (the identity query at its attempt \<open>k + 1\<close>, the
  permission query at its attempt \<open>l + 1\<close>, each within the three attempts), the user is
  the stripped identity output and \<open>check_cluster_admin\<close> returns \<open>(user, None)\<close> exactly
  when the stripped permission output contains "yes" or the user equals "system:admin";
  otherwise it returns the user with the refusal message.
\<close>

theorem check_cluster_admin_policy:
  assumes "\<forall>i<k. fst (attempt_answer m user_command i) \<noteq> 0"
    and "attempt_answer m user_command k = (0, who, e1)"
    and "k < 3"
    and "\<forall>j<l. fst (attempt_answer (after_identity m k) check_admin_command j) \<noteq> 0"
    and "attempt_answer (after_identity m k) check_admin_command l = (0, can_i, e2)"
    and "l < 3"
  shows "fst (check_cluster_admin m) =
           Inr (Some (strip who),
                if py_in ''yes'' (strip can_i) \<or> strip who = ''system:admin'' then None
                else Some ''User does not have `cluster-admin` rights.'')
       \<and> (fst (check_cluster_admin m) = Inr (Some (strip who), None)
            \<longleftrightarrow> py_in ''yes'' (strip can_i) \<or> strip who = ''system:admin'')"
  using check_cluster_admin_both_succeed [OF assms] by simp

theorem check_cluster_admin_policy_witness:
  "attempt_answer (replaying [(0, ''system:admin'' @ [CHR 0x0A], ''''), (0, ''no'', '''')]) user_command 0
     = (0, ''system:admin'' @ [CHR 0x0A], '''')
   \<and> attempt_answer (after_identity (replaying [(0, ''system:admin'' @ [CHR 0x0A], ''''), (0, ''no'', '''')]) 0)
        check_admin_command 0 = (0, ''no'', '''')
   \<and> fst (check_cluster_admin (replaying [(0, ''system:admin'' @ [CHR 0x0A], ''''), (0, ''no'', '''')]))
     = Inr (Some ''system:admin'', None)"
  using check_cluster_admin_policy
    [of 0 "replaying [(0, ''system:admin'' @ [CHR 0x0A], ''''), (0, ''no'', '''')]"
        "''system:admin'' @ [CHR 0x0A]" "''''" 0 "''no''" "''''"]
  by (simp add: eval_text eval_module)

text \<open>
  C5. When the identity command fails all three attempts, \<open>check_cluster_admin\<close> returns
  no user and a message containing "Ensure"; the only commands run are the three runs of
  \<open>oc whoami\<close>, so the permission command is never invoked.
\<close>

theorem identity_failure_short_circuits:
  assumes "\<forall>i<3. fst (attempt_answer m user_command i) \<noteq> 0"
  shows "fst (check_cluster_admin m) =
           Inr (None, Some ''Failed to execute `oc whoami`. Ensure `oc` client is configured correctly.'')
       \<and> py_in ''Ensure'' ''Failed to execute `oc whoami`. Ensure `oc` client is configured correctly.''
       \<and> journal (snd (check_cluster_admin m)) =
           journal m @ failed_attempts m user_command 3 2 @ [Run user_command]
       \<and> filter is_Run (drop (length (journal m)) (journal (snd (check_cluster_admin m))))
           = [Run user_command, Run user_command, Run user_command]
       \<and> Run check_admin_command \<notin> set (drop (length (journal m)) (journal (snd (check_cluster_admin m))))"
proof -
  have run: "check_cluster_admin m =
      (Inr (None, Some ''Failed to execute `oc whoami`. Ensure `oc` client is configured correctly.''),
       after_identity m 2)"
    using assms by (rule check_cluster_admin_identity_exhausted)
  have j: "journal (after_identity m 2) = journal m @ failed_attempts m user_command 3 2 @ [Run user_command]"
    by (simp add: after_identity_def)
  have "Run check_admin_command \<notin> set (failed_attempts m user_command 3 2 @ [Run user_command])"
    unfolding events_of_exhausted_identity by (simp add: check_admin_command_def)
  moreover have "filter is_Run (failed_attempts m user_command 3 2 @ [Run user_command])
      = [Run user_command, Run user_command, Run user_command]"
    unfolding events_of_exhausted_identity by (simp add: user_command_def)
  ultimately show ?thesis
    unfolding run by (simp add: j)
qed

theorem identity_failure_short_circuits_witness:
  "fst (attempt_answer (replaying [(1, '''', ''e1''), (1, '''', ''e2''), (127, '''', ''e3''), (0, ''yes'', '''')]) user_command 0) \<noteq> 0
   \<and> fst (attempt_answer (replaying [(1, '''', ''e1''), (1, '''', ''e2''), (127, '''', ''e3''), (0, ''yes'', '''')]) user_command 1) \<noteq> 0
   \<and> fst (attempt_answer (replaying [(1, '''', ''e1''), (1, '''', ''e2''), (127, '''', ''e3''), (0, ''yes'', '''')]) user_command 2) \<noteq> 0
   \<and> fst (check_cluster_admin (replaying [(1, '''', ''e1''), (1, '''', ''e2''), (127, '''', ''e3''), (0, ''yes'', '''')])) =
        Inr (None, Some ''Failed to execute `oc whoami`. Ensure `oc` client is configured correctly.'')
   \<and> journal (snd (check_cluster_admin (replaying [(1, '''', ''e1''), (1, '''', ''e2''), (127, '''', ''e3''), (0, ''yes'', '''')]))) =
        [Run ''oc whoami'', Warn ''Retrying in 3 seconds due to error: e1'', Sleep 3,
         Run ''oc whoami'', Warn ''Retrying in 3 seconds due to error: e2'', Sleep 3,
         Run ''oc whoami'']"
  using identity_failure_short_circuits
    [of "replaying [(1, '''', ''e1''), (1, '''', ''e2''), (127, '''', ''e3''), (0, ''yes'', '''')]"]
  by (simp add: eval_text eval_module less_Suc_eq numeral_3_eq_3 numeral_2_eq_2)

text \<open>
  C4. Asymmetric error detail. When the identity command exhausts its retries, the error
  of \<open>check_cluster_admin\<close> is only the generic hint
  "Failed to execute `oc whoami`. Ensure `oc` client is configured correctly.": the same
  text whatever the stderr of the attempts was, so the stderr is not passed on, and the
  Runner's failure message "Command failed after 3 attempts: ..." is not in it. When the
  identity query succeeds and the permission command exhausts its retries, the error ends
  with the Runner's failure message, and so contains it and the stripped stderr of the
  last attempt.
\<close>

theorem error_detail_asymmetry:
  "((\<forall>i<3. fst (attempt_answer m user_command i) \<noteq> 0) \<longrightarrow>
       fst (check_cluster_admin m) =
         Inr (None, Some ''Failed to execute `oc whoami`. Ensure `oc` client is configured correctly.'')
     \<and> \<not> py_in (''Command failed after 3 attempts: '' @ strip (snd (snd (attempt_answer m user_command 2))))
            ''Failed to execute `oc whoami`. Ensure `oc` client is configured correctly.'')
   \<and> ((\<forall>i<k. fst (attempt_answer m user_command i) \<noteq> 0)
        \<and> attempt_answer m user_command k = (0, who, e1) \<and> k < 3
        \<and> (\<forall>j<3. fst (attempt_answer (after_identity m k) check_admin_command j) \<noteq> 0) \<longrightarrow>
       fst (check_cluster_admin m) =
         Inr (None, Some (''Failed to verify cluster-admin rights. Error: ''
                @ ''Command failed after 3 attempts: ''
                @ strip (snd (snd (attempt_answer (after_identity m k) check_admin_command 2)))))
     \<and> py_in (''Command failed after 3 attempts: ''
                @ strip (snd (snd (attempt_answer (after_identity m k) check_admin_command 2))))
              (''Failed to verify cluster-admin rights. Error: ''
                @ ''Command failed after 3 attempts: ''
                @ strip (snd (snd (attempt_answer (after_identity m k) check_admin_command 2))))
     \<and> py_in (strip (snd (snd (attempt_answer (after_identity m k) check_admin_command 2))))
              (''Failed to verify cluster-admin rights. Error: ''
                @ ''Command failed after 3 attempts: ''
                @ strip (snd (snd (attempt_answer (after_identity m k) check_admin_command 2)))))"
proof (intro conjI impI)
  assume "\<forall>i<3. fst (attempt_answer m user_command i) \<noteq> 0"
  then show "fst (check_cluster_admin m) =
         Inr (None, Some ''Failed to execute `oc whoami`. Ensure `oc` client is configured correctly.'')"
    by (simp add: check_cluster_admin_identity_exhausted)
next
  show "\<not> py_in (''Command failed after 3 attempts: '' @ strip (snd (snd (attempt_answer m user_command 2))))
            ''Failed to execute `oc whoami`. Ensure `oc` client is configured correctly.''"
    by (rule generic_hides_runner_failure)
next
  let ?e = "strip (snd (snd (attempt_answer (after_identity m k) check_admin_command 2)))"
  assume h: "(\<forall>i<k. fst (attempt_answer m user_command i) \<noteq> 0)
        \<and> attempt_answer m user_command k = (0, who, e1) \<and> k < 3
        \<and> (\<forall>j<3. fst (attempt_answer (after_identity m k) check_admin_command j) \<noteq> 0)"
  then have "check_cluster_admin m =
           (Inr (None, Some (''Failed to verify cluster-admin rights. Error: ''
                   @ ''Command failed after 3 attempts: '' @ ?e)),
            after_permission (after_identity m k) 2)"
    by (intro check_cluster_admin_permission_exhausted [where who = who and ?e1.0 = e1]) simp_all
  then show "fst (check_cluster_admin m) =
         Inr (None, Some (''Failed to verify cluster-admin rights. Error: ''
                @ ''Command failed after 3 attempts: '' @ ?e))"
    by simp
next
  let ?e = "strip (snd (snd (attempt_answer (after_identity m k) check_admin_command 2)))"
  show "py_in (''Command failed after 3 attempts: '' @ ?e)
              (''Failed to verify cluster-admin rights. Error: '' @ ''Command failed after 3 attempts: '' @ ?e)"
    using py_in_append [of "''Command failed after 3 attempts: '' @ ?e"
            "''Failed to verify cluster-admin rights. Error: ''" "[]"]
    by simp
next
  let ?e = "strip (snd (snd (attempt_answer (after_identity m k) check_admin_command 2)))"
  show "py_in ?e
              (''Failed to verify cluster-admin rights. Error: '' @ ''Command failed after 3 attempts: '' @ ?e)"
    using py_in_append [of ?e
            "''Failed to verify cluster-admin rights. Error: '' @ ''Command failed after 3 attempts: ''" "[]"]
    by simp
qed

theorem error_detail_asymmetry_witness:
  "fst (attempt_answer (replaying [(1, '''', ''e1''), (1, '''', ''e2''), (1, '''', ''e3'')]) user_command 0) \<noteq> 0
   \<and> fst (attempt_answer (replaying [(1, '''', ''e1''), (1, '''', ''e2''), (1, '''', ''e3'')]) user_command 1) \<noteq> 0
   \<and> fst (attempt_answer (replaying [(1, '''', ''e1''), (1, '''', ''e2''), (1, '''', ''e3'')]) user_command 2) \<noteq> 0
   \<and> fst (check_cluster_admin (replaying [(1, '''', ''e1''), (1, '''', ''e2''), (1, '''', ''e3'')])) =
        Inr (None, Some ''Failed to execute `oc whoami`. Ensure `oc` client is configured correctly.'')
   \<and> attempt_answer (replaying [(0, ''alice'', ''''), (1, '''', ''f1''), (1, '''', ''f2''), (1, '''', ''denied '')]) user_command 0
        = (0, ''alice'', '''')
   \<and> fst (attempt_answer (after_identity (replaying [(0, ''alice'', ''''), (1, '''', ''f1''), (1, '''', ''f2''), (1, '''', ''denied '')]) 0) check_admin_command 0) \<noteq> 0
   \<and> fst (attempt_answer (after_identity (replaying [(0, ''alice'', ''''), (1, '''', ''f1''), (1, '''', ''f2''), (1, '''', ''denied '')]) 0) check_admin_command 1) \<noteq> 0
   \<and> fst (attempt_answer (after_identity (replaying [(0, ''alice'', ''''), (1, '''', ''f1''), (1, '''', ''f2''), (1, '''', ''denied '')]) 0) check_admin_command 2) \<noteq> 0
   \<and> fst (check_cluster_admin (replaying [(0, ''alice'', ''''), (1, '''', ''f1''), (1, '''', ''f2''), (1, '''', ''denied '')])) =
        Inr (None, Some ''Failed to verify cluster-admin rights. Error: Command failed after 3 attempts: denied'')"
  using error_detail_asymmetry
      [of "replaying [(1, '''', ''e1''), (1, '''', ''e2''), (1, '''', ''e3'')]" 0 "''''" "''''"]
    error_detail_asymmetry
      [of "replaying [(0, ''alice'', ''''), (1, '''', ''f1''), (1, '''', ''f2''), (1, '''', ''denied '')]" 0 "''alice''" "''''"]
  by (simp add: eval_text eval_module less_Suc_eq numeral_3_eq_3 numeral_2_eq_2)

text \<open>
  C6, as amended. For the permission output "Yes please" and an identity other than
  "system:admin", the decision does not authorize: the test is case-sensitive and the
  lowercase "yes" does not occur in "Yes please".
\<close>

theorem capital_yes_is_not_yes:
  assumes "\<forall>i<k. fst (attempt_answer m user_command i) \<noteq> 0"
    and "attempt_answer m user_command k = (0, who, e1)"
    and "k < 3"
    and "\<forall>j<l. fst (attempt_answer (after_identity m k) check_admin_command j) \<noteq> 0"
    and "attempt_answer (after_identity m k) check_admin_command l = (0, can_i, e2)"
    and "l < 3"
    and "strip can_i = ''Yes please''"
    and "strip who \<noteq> ''system:admin''"
  shows "\<not> py_in ''yes'' (strip can_i)
       \<and> fst (check_cluster_admin m) =
           Inr (Some (strip who), Some ''User does not have `cluster-admin` rights.'')"
  using check_cluster_admin_both_succeed [OF assms(1-6)] assms(7,8) by simp

theorem capital_yes_is_not_yes_witness:
  "attempt_answer (replaying [(1, '''', ''timeout''), (0, ''bob'', ''''), (0, ''Yes please'' @ [CHR 0x0A], '''')]) user_command 0
     = (1, '''', ''timeout'')
   \<and> attempt_answer (replaying [(1, '''', ''timeout''), (0, ''bob'', ''''), (0, ''Yes please'' @ [CHR 0x0A], '''')]) user_command 1
     = (0, ''bob'', '''')
   \<and> attempt_answer (after_identity (replaying [(1, '''', ''timeout''), (0, ''bob'', ''''), (0, ''Yes please'' @ [CHR 0x0A], '''')]) 1)
        check_admin_command 0 = (0, ''Yes please'' @ [CHR 0x0A], '''')
   \<and> strip (''Yes please'' @ [CHR 0x0A]) = ''Yes please''
   \<and> strip ''bob'' \<noteq> ''system:admin''
   \<and> fst (check_cluster_admin (replaying [(1, '''', ''timeout''), (0, ''bob'', ''''), (0, ''Yes please'' @ [CHR 0x0A], '''')]))
        = Inr (Some ''bob'', Some ''User does not have `cluster-admin` rights.'')"
  using capital_yes_is_not_yes
    [of 1 "replaying [(1, '''', ''timeout''), (0, ''bob'', ''''), (0, ''Yes please'' @ [CHR 0x0A], '''')]"
        "''bob''" "''''" 0 "''Yes please'' @ [CHR 0x0A]" "''''"]
  by (simp add: eval_text eval_module)

text \<open>
  C6 as first stated says that "Yes please" authorizes. For alice it does not.
\<close>

theorem capital_yes_authorizes_counterexample:
  "attempt_answer (replaying [(0, ''alice'', ''''), (0, ''Yes please'', '''')]) user_command 0 = (0, ''alice'', '''')
   \<and> attempt_answer (after_identity (replaying [(0, ''alice'', ''''), (0, ''Yes please'', '''')]) 0) check_admin_command 0
        = (0, ''Yes please'', '''')
   \<and> ''alice'' \<noteq> ''system:admin''
   \<and> \<not> py_in ''yes'' ''Yes please''
   \<and> fst (check_cluster_admin (replaying [(0, ''alice'', ''''), (0, ''Yes please'', '''')]))
        = Inr (Some ''alice'', Some ''User does not have `cluster-admin` rights.'')
   \<and> fst (check_cluster_admin (replaying [(0, ''alice'', ''''), (0, ''Yes please'', '''')]))
        \<noteq> Inr (Some ''alice'', None)"
  by (simp add: check_cluster_admin_def run_command_with_retries_def py_range_def upto_rec1
        run_command_def eval_text eval_module)

text \<open>
  C7, as amended. When both commands succeed and neither condition holds,
  \<open>check_cluster_admin\<close> returns the user with the error string
  "User does not have `cluster-admin` rights.", backquotes included.
\<close>

theorem unauthorized_message:
  assumes "\<forall>i<k. fst (attempt_answer m user_command i) \<noteq> 0"
    and "attempt_answer m user_command k = (0, who, e1)"
    and "k < 3"
    and "\<forall>j<l. fst (attempt_answer (after_identity m k) check_admin_command j) \<noteq> 0"
    and "attempt_answer (after_identity m k) check_admin_command l = (0, can_i, e2)"
    and "l < 3"
    and "\<not> py_in ''yes'' (strip can_i)"
    and "strip who \<noteq> ''system:admin''"
  shows "fst (check_cluster_admin m) =
           Inr (Some (strip who), Some ''User does not have `cluster-admin` rights.'')"
  using check_cluster_admin_both_succeed [OF assms(1-6)] assms(7,8) by simp

theorem unauthorized_message_witness:
  "attempt_answer (replaying [(0, ''alice'', ''''), (0, ''no'', '''')]) user_command 0 = (0, ''alice'', '''')
   \<and> attempt_answer (after_identity (replaying [(0, ''alice'', ''''), (0, ''no'', '''')]) 0) check_admin_command 0
        = (0, ''no'', '''')
   \<and> \<not> py_in ''yes'' (strip ''no'')
   \<and> strip ''alice'' \<noteq> ''system:admin''
   \<and> fst (check_cluster_admin (replaying [(0, ''alice'', ''''), (0, ''no'', '''')]))
        = Inr (Some ''alice'', Some ''User does not have `cluster-admin` rights.'')"
  using unauthorized_message
    [of 0 "replaying [(0, ''alice'', ''''), (0, ''no'', '''')]" "''alice''" "''''" 0 "''no''" "''''"]
  by (simp add: eval_text eval_module)

text \<open>
  C7 as first stated gives the string without the backquotes around cluster-admin; the
  returned string differs from it.
\<close>

theorem unauthorized_message_counterexample:
  "attempt_answer (replaying [(0, ''alice'', ''''), (0, ''no'', '''')]) user_command 0 = (0, ''alice'', '''')
   \<and> attempt_answer (after_identity (replaying [(0, ''alice'', ''''), (0, ''no'', '''')]) 0) check_admin_command 0
        = (0, ''no'', '''')
   \<and> fst (check_cluster_admin (replaying [(0, ''alice'', ''''), (0, ''no'', '''')]))
        = Inr (Some ''alice'', Some ''User does not have `cluster-admin` rights.'')
   \<and> fst (check_cluster_admin (replaying [(0, ''alice'', ''''), (0, ''no'', '''')]))
        \<noteq> Inr (Some ''alice'', Some ''User does not have cluster-admin rights.'')"
  by (simp add: check_cluster_admin_def run_command_with_retries_def py_range_def upto_rec1
        run_command_def eval_text eval_module)

section \<open>Properties of run\_module\<close>

text \<open>
  C8, as amended. Whenever \<open>check_cluster_admin\<close> returns an error, \<open>run_module\<close> fails
  with "Current user `U` does not have `cluster-admin` rights. " followed by the
  error, where \<open>U\<close> is the user name, or the text "None" when there is no user; in
  particular, when the identity command failed all three attempts the slot reads "None".
\<close>

theorem run_module_failure_message:
  "(fst (check_cluster_admin m) = Inr (user, Some detail) \<longrightarrow>
      fst (run_module m) =
        Fail_json (''Current user `'' @ (case user of None \<Rightarrow> ''None'' | Some u \<Rightarrow> u)
                     @ ''` does not have `cluster-admin` rights. '' @ detail))
   \<and> ((\<forall>i<3. fst (attempt_answer m user_command i) \<noteq> 0) \<longrightarrow>
      fst (run_module m) =
        Fail_json (''Current user `'' @ ''None'' @ ''` does not have `cluster-admin` rights. ''
          @ ''Failed to execute `oc whoami`. Ensure `oc` client is configured correctly.''))"
proof (intro conjI impI)
  assume "fst (check_cluster_admin m) = Inr (user, Some detail)"
  then have "fst (run_module m) =
           Fail_json (''Current user `'' @ fmt user @ ''` does not have `cluster-admin` rights. '' @ detail)"
    by (rule run_module_reports_error)
  then show "fst (run_module m) =
        Fail_json (''Current user `'' @ (case user of None \<Rightarrow> ''None'' | Some u \<Rightarrow> u)
                     @ ''` does not have `cluster-admin` rights. '' @ detail)"
    by (cases user) simp_all
next
  assume "\<forall>i<3. fst (attempt_answer m user_command i) \<noteq> 0"
  then have "fst (check_cluster_admin m) =
      Inr (None, Some ''Failed to execute `oc whoami`. Ensure `oc` client is configured correctly.'')"
    by (simp add: check_cluster_admin_identity_exhausted)
  then have "fst (run_module m) =
           Fail_json (''Current user `'' @ fmt None @ ''` does not have `cluster-admin` rights. ''
             @ ''Failed to execute `oc whoami`. Ensure `oc` client is configured correctly.'')"
    by (rule run_module_reports_error)
  then show "fst (run_module m) =
        Fail_json (''Current user `'' @ ''None'' @ ''` does not have `cluster-admin` rights. ''
          @ ''Failed to execute `oc whoami`. Ensure `oc` client is configured correctly.'')"
    by simp
qed

theorem run_module_failure_message_witness:
  "fst (check_cluster_admin (replaying [(0, ''alice'', ''''), (0, ''no'', '''')]))
     = Inr (Some ''alice'', Some ''User does not have `cluster-admin` rights.'')
   \<and> fst (run_module (replaying [(0, ''alice'', ''''), (0, ''no'', '''')]))
     = Fail_json ''Current user `alice` does not have `cluster-admin` rights. User does not have `cluster-admin` rights.''
   \<and> fst (attempt_answer (replaying [(1, '''', ''e1''), (1, '''', ''e2''), (1, '''', ''e3'')]) user_command 0) \<noteq> 0
   \<and> fst (attempt_answer (replaying [(1, '''', ''e1''), (1, '''', ''e2''), (1, '''', ''e3'')]) user_command 1) \<noteq> 0
   \<and> fst (attempt_answer (replaying [(1, '''', ''e1''), (1, '''', ''e2''), (1, '''', ''e3'')]) user_command 2) \<noteq> 0
   \<and> fst (run_module (replaying [(1, '''', ''e1''), (1, '''', ''e2''), (1, '''', ''e3'')]))
     = Fail_json ''Current user `None` does not have `cluster-admin` rights. Failed to execute `oc whoami`. Ensure `oc` client is configured correctly.''"
proof -
  have a: "fst (check_cluster_admin (replaying [(0, ''alice'', ''''), (0, ''no'', '''')]))
     = Inr (Some ''alice'', Some ''User does not have `cluster-admin` rights.'')"
    by (simp add: check_cluster_admin_def run_command_with_retries_def py_range_def upto_rec1
        run_command_def eval_text eval_module)
  have b: "\<forall>i<3. fst (attempt_answer (replaying [(1, '''', ''e1''), (1, '''', ''e2''), (1, '''', ''e3'')]) user_command i) \<noteq> 0"
    by (simp add: eval_module less_Suc_eq numeral_3_eq_3)
  from run_module_failure_message
      [of "replaying [(0, ''alice'', ''''), (0, ''no'', '''')]" "Some ''alice''"
          "''User does not have `cluster-admin` rights.''"] a
  have c: "fst (run_module (replaying [(0, ''alice'', ''''), (0, ''no'', '''')]))
     = Fail_json ''Current user `alice` does not have `cluster-admin` rights. User does not have `cluster-admin` rights.''"
    by simp
  from run_module_failure_message
      [of "replaying [(1, '''', ''e1''), (1, '''', ''e2''), (1, '''', ''e3'')]" None "[]"] b
  have d: "fst (run_module (replaying [(1, '''', ''e1''), (1, '''', ''e2''), (1, '''', ''e3'')]))
     = Fail_json ''Current user `None` does not have `cluster-admin` rights. Failed to execute `oc whoami`. Ensure `oc` client is configured correctly.''"
    by simp
  from b have e: "fst (attempt_answer (replaying [(1, '''', ''e1''), (1, '''', ''e2''), (1, '''', ''e3'')]) user_command 0) \<noteq> 0
   \<and> fst (attempt_answer (replaying [(1, '''', ''e1''), (1, '''', ''e2''), (1, '''', ''e3'')]) user_command 1) \<noteq> 0
   \<and> fst (attempt_answer (replaying [(1, '''', ''e1''), (1, '''', ''e2''), (1, '''', ''e3'')]) user_command 2) \<noteq> 0"
    by simp
  from a c d e show ?thesis by blast
qed

text \<open>
  C8 as first stated says the slot is empty when the identity could not be established.
  The message then reads "Current user `None` ...".
\<close>

theorem empty_user_slot_counterexample:
  "fst (attempt_answer (replaying [(1, '''', ''e1''), (1, '''', ''e2''), (1, '''', ''e3'')]) user_command 0) \<noteq> 0
   \<and> fst (attempt_answer (replaying [(1, '''', ''e1''), (1, '''', ''e2''), (1, '''', ''e3'')]) user_command 1) \<noteq> 0
   \<and> fst (attempt_answer (replaying [(1, '''', ''e1''), (1, '''', ''e2''), (1, '''', ''e3'')]) user_command 2) \<noteq> 0
   \<and> fst (run_module (replaying [(1, '''', ''e1''), (1, '''', ''e2''), (1, '''', ''e3'')])) =
        Fail_json (''Current user `'' @ ''None'' @ ''` does not have `cluster-admin` rights. ''
          @ ''Failed to execute `oc whoami`. Ensure `oc` client is configured correctly.'')
   \<and> fst (run_module (replaying [(1, '''', ''e1''), (1, '''', ''e2''), (1, '''', ''e3'')])) \<noteq>
        Fail_json (''Current user `'' @ '''' @ ''` does not have `cluster-admin` rights. ''
          @ ''Failed to execute `oc whoami`. Ensure `oc` client is configured correctly.'')"
proof -
  have "\<forall>i<3. fst (attempt_answer (replaying [(1, '''', ''e1''), (1, '''', ''e2''), (1, '''', ''e3'')]) user_command i) \<noteq> 0"
    by (simp add: eval_module less_Suc_eq numeral_3_eq_3)
  from check_cluster_admin_identity_exhausted [OF this] show ?thesis
    by (simp add: run_module_def eval_module)
qed

text \<open>
  C10. When both commands succeed and the user is not authorized, the failure message of
  \<open>run_module\<close> holds the phrase "does not have `cluster-admin` rights." twice: once
  from the outer template, once from the appended detail.
\<close>

theorem unauthorized_report_repeats_phrase:
  assumes "\<forall>i<k. fst (attempt_answer m user_command i) \<noteq> 0"
    and "attempt_answer m user_command k = (0, who, e1)"
    and "k < 3"
    and "\<forall>j<l. fst (attempt_answer (after_identity m k) check_admin_command j) \<noteq> 0"
    and "attempt_answer (after_identity m k) check_admin_command l = (0, can_i, e2)"
    and "l < 3"
    and "\<not> py_in ''yes'' (strip can_i)"
    and "strip who \<noteq> ''system:admin''"
  shows "fst (run_module m) =
           Fail_json ((''Current user `'' @ strip who @ ''` '')
                        @ ''does not have `cluster-admin` rights.''
                        @ '' User ''
                        @ ''does not have `cluster-admin` rights.'')"
proof -
  from check_cluster_admin_both_succeed [OF assms(1-6)] assms(7,8)
  have "fst (check_cluster_admin m) =
           Inr (Some (strip who), Some ''User does not have `cluster-admin` rights.'')"
    by simp
  then have "fst (run_module m) =
           Fail_json (''Current user `'' @ fmt (Some (strip who)) @ ''` does not have `cluster-admin` rights. ''
             @ ''User does not have `cluster-admin` rights.'')"
    by (rule run_module_reports_error)
  then show ?thesis by simp
qed

theorem unauthorized_report_repeats_phrase_witness:
  "attempt_answer (replaying [(0, ''alice'', ''''), (0, ''no'', '''')]) user_command 0 = (0, ''alice'', '''')
   \<and> attempt_answer (after_identity (replaying [(0, ''alice'', ''''), (0, ''no'', '''')]) 0) check_admin_command 0
        = (0, ''no'', '''')
   \<and> \<not> py_in ''yes'' (strip ''no'')
   \<and> strip ''alice'' \<noteq> ''system:admin''
   \<and> fst (run_module (replaying [(0, ''alice'', ''''), (0, ''no'', '''')]))
        = Fail_json ''Current user `alice` does not have `cluster-admin` rights. User does not have `cluster-admin` rights.''"
  using unauthorized_report_repeats_phrase
    [of 0 "replaying [(0, ''alice'', ''''), (0, ''no'', '''')]" "''alice''" "''''" 0 "''no''" "''''"]
  by (simp add: eval_text eval_module)

end
